theory Spec2Isabelle
  imports Main "HOL-Library.Char_ord" "HOL-Library.List_Lexorder" "HOL-Library.Product_Lexorder"
begin

section \<open>Colorado snow-course data: a model of \<^verbatim>\<open>fetch_data.py\<close>\<close>

text \<open>
  The script downloads one report per snow-course station, parses it into a wide table
  (one row per water year) and offers a pivot of a wide table into long format. Its
  functions are modelled one by one, with the names of the source. What the script takes
  from outside (the HTTP service, the station directory, the CSV reader of pandas) is a
  parameter of the model; every Python exception is a value of the type \<open>error\<close>.
\<close>

subsection \<open>Exceptions\<close>

datatype error =
    KeyError "string list"
  | TypeError
  | ValueError
  | EmptyDataError
  | ParserError
  | Timeout string
  | ConnectionError string
  | HTTPError nat string

subsection \<open>Python strings\<close>

text \<open>\<^verbatim>\<open>s.split(sep)\<close> for a one-character separator: never the empty list.\<close>

fun split_on :: "char \<Rightarrow> string \<Rightarrow> string list" where
  "split_on sep [] = [[]]"
| "split_on sep (c # cs) =
     (if c = sep then [] # split_on sep cs
      else (case split_on sep cs of
              [] \<Rightarrow> [[c]]
            | l # ls \<Rightarrow> (c # l) # ls))"

text \<open>\<^verbatim>\<open>sep.join(parts)\<close>.\<close>

fun join :: "string \<Rightarrow> string list \<Rightarrow> string" where
  "join sep [] = []"
| "join sep [x] = x"
| "join sep (x # y # ys) = x @ sep @ join sep (y # ys)"

definition startswith :: "string \<Rightarrow> string \<Rightarrow> bool" where
  "startswith s p = (take (length p) s = p)"

definition newline :: char where
  "newline = CHR 0x0A"

subsection \<open>Tables\<close>

text \<open>
  A cell of a pandas table is absent (\<open>NaN\<close>), a number or a text. The script never
  computes with a measurement, so a decimal value is carried as the text the report has;
  water years are whole numbers.
\<close>

datatype cell = NaN | Num int | Str string

type_synonym row = "cell list"

record dataframe =
  columns :: "string list"
  rows :: "row list"

text \<open>The cell of a row at a position; a row too short for the position has no value there.\<close>

definition cell_at :: "row \<Rightarrow> nat \<Rightarrow> cell" where
  "cell_at r i = (if i < length r then r ! i else NaN)"

text \<open>All positions, counted from \<open>i\<close>, of the columns named \<open>c\<close>.\<close>

fun positions :: "string list \<Rightarrow> string \<Rightarrow> nat \<Rightarrow> nat list" where
  "positions [] c i = []"
| "positions (x # xs) c i = (if x = c then i # positions xs c (Suc i) else positions xs c (Suc i))"

text \<open>The cell of a row under a column name (the first column of that name).\<close>

definition cell_of :: "dataframe \<Rightarrow> row \<Rightarrow> string \<Rightarrow> cell" where
  "cell_of df r c = (case positions (columns df) c 0 of [] \<Rightarrow> NaN | i # _ \<Rightarrow> cell_at r i)"

definition isna :: "cell \<Rightarrow> bool" where
  "isna c = (c = NaN)"

text \<open>\<^verbatim>\<open>df[cols]\<close>: a missing name raises KeyError; a name the table has twice selects both columns.\<close>

definition getitem_cols :: "dataframe \<Rightarrow> string list \<Rightarrow> error + dataframe" where
  "getitem_cols df cols =
     (case filter (\<lambda>c. c \<notin> set (columns df)) cols of
        [] \<Rightarrow>
          (let picks = concat (map (\<lambda>c. positions (columns df) c 0) cols)
           in Inr \<lparr>columns = map (\<lambda>i. columns df ! i) picks,
                    rows = map (\<lambda>r. map (cell_at r) picks) (rows df)\<rparr>)
      | missing \<Rightarrow> Inl (KeyError missing))"

text \<open>\<^verbatim>\<open>df.columns = names\<close>: pandas raises ValueError (length mismatch) unless there is one name per column.\<close>

definition set_columns :: "dataframe \<Rightarrow> string list \<Rightarrow> error + dataframe" where
  "set_columns df names =
     (if length names = length (columns df) then Inr (df\<lparr>columns := names\<rparr>) else Inl ValueError)"

text \<open>\<^verbatim>\<open>df[name] = value\<close> with one value for every row: a new column is appended, an existing one overwritten.\<close>

definition setitem_scalar :: "dataframe \<Rightarrow> string \<Rightarrow> cell \<Rightarrow> dataframe" where
  "setitem_scalar df name v =
     (if name \<in> set (columns df)
      then df\<lparr>rows := map (\<lambda>r. map (\<lambda>i. if columns df ! i = name then v else cell_at r i)
                                  [0..<length (columns df)]) (rows df)\<rparr>
      else \<lparr>columns = columns df @ [name], rows = map (\<lambda>r. r @ [v]) (rows df)\<rparr>)"

text \<open>\<^verbatim>\<open>df[name] = series\<close> for a name the table does not have yet: one value per row.\<close>

definition append_series :: "dataframe \<Rightarrow> string \<Rightarrow> cell list \<Rightarrow> dataframe" where
  "append_series df name vs =
     \<lparr>columns = columns df @ [name], rows = map (\<lambda>(r, v). r @ [v]) (zip (rows df) vs)\<rparr>"

text \<open>\<^verbatim>\<open>df[df[name].notna()]\<close>.\<close>

definition filter_notna :: "dataframe \<Rightarrow> string \<Rightarrow> error + dataframe" where
  "filter_notna df name =
     (if name \<in> set (columns df)
      then Inr (df\<lparr>rows := filter (\<lambda>r. \<not> isna (cell_of df r name)) (rows df)\<rparr>)
      else Inl (KeyError [name]))"

text \<open>\<^verbatim>\<open>df.dropna(subset=names, how='all')\<close>: a row goes when every named cell is absent.\<close>

definition dropna_all :: "dataframe \<Rightarrow> string list \<Rightarrow> error + dataframe" where
  "dropna_all df names =
     (case filter (\<lambda>c. c \<notin> set (columns df)) names of
        [] \<Rightarrow> Inr (df\<lparr>rows := filter (\<lambda>r. \<not> list_all (\<lambda>c. isna (cell_of df r c)) names) (rows df)\<rparr>)
      | missing \<Rightarrow> Inl (KeyError missing))"

text \<open>
  \<^verbatim>\<open>pd.concat(frames, ignore_index=True)\<close>: no frame at all is a ValueError; frames of the
  same columns are stacked; otherwise the columns are united in order of appearance and
  the cells a frame lacks are absent.
\<close>

definition union_columns :: "dataframe list \<Rightarrow> string list" where
  "union_columns dfs =
     fold (\<lambda>c acc. if c \<in> set acc then acc else acc @ [c]) (concat (map columns dfs)) []"

definition concat_frames :: "dataframe list \<Rightarrow> error + dataframe" where
  "concat_frames dfs =
     (case dfs of
        [] \<Rightarrow> Inl ValueError
      | d # ds \<Rightarrow>
          if list_all (\<lambda>x. columns x = columns d) ds
          then Inr \<lparr>columns = columns d, rows = concat (map rows dfs)\<rparr>
          else Inr \<lparr>columns = union_columns dfs,
                    rows = concat (map (\<lambda>x. map (\<lambda>r. map (cell_of x r) (union_columns dfs)) (rows x)) dfs)\<rparr>)"

text \<open>\<^verbatim>\<open>df.drop(name, axis=1)\<close>: every column of that name goes; KeyError when there is none.\<close>

fun positions_except :: "string list \<Rightarrow> string \<Rightarrow> nat \<Rightarrow> nat list" where
  "positions_except [] c i = []"
| "positions_except (x # xs) c i =
     (if x = c then positions_except xs c (Suc i) else i # positions_except xs c (Suc i))"

definition drop_column :: "dataframe \<Rightarrow> string \<Rightarrow> error + dataframe" where
  "drop_column df name =
     (if name \<in> set (columns df)
      then Inr \<lparr>columns = filter (\<lambda>c. c \<noteq> name) (columns df),
                rows = map (\<lambda>r. map (cell_at r) (positions_except (columns df) name 0)) (rows df)\<rparr>
      else Inl (KeyError [name]))"

subsection \<open>The wide-format parser\<close>

text \<open>
  \<^verbatim>\<open>pd.read_csv(StringIO(data_text), header=0)\<close> is the library's: the parser takes the
  reader as a parameter, a function from the text to a table or an exception.
\<close>

type_synonym csv_reader = "string \<Rightarrow> error + dataframe"

definition marker :: string where
  "marker = ''Water Year,''"

definition month_names :: "string list" where
  "month_names = [''Jan'', ''Feb'', ''Mar'', ''Apr'', ''May'', ''Jun'']"

text \<open>The loop that extends \<^verbatim>\<open>new_columns\<close> by three names per month.\<close>

definition new_columns :: "string list" where
  "new_columns =
     ''water_year'' #
       concat (map (\<lambda>month. [month @ ''_date'', month @ ''_snow_depth_in'', month @ ''_swe_in''])
                 month_names)"

text \<open>The loop over \<^verbatim>\<open>enumerate(lines)\<close> that breaks at the first line starting with the marker.\<close>

fun find_data_start :: "string list \<Rightarrow> nat \<Rightarrow> nat option" where
  "find_data_start [] i = None"
| "find_data_start (line # ls) i =
     (if startswith line marker then Some i else find_data_start ls (Suc i))"

text \<open>
  The text handed to the reader: the marker line and the lines from two after it, the
  description line between them skipped. \<open>None\<close> when no line starts with the marker.
\<close>

definition data_text :: "string \<Rightarrow> string option" where
  "data_text raw =
     (let lines = split_on newline raw in
      case find_data_start lines 0 of
        None \<Rightarrow> None
      | Some data_start \<Rightarrow>
          (let data_lines = [lines ! data_start] @ drop (data_start + 2) lines
           in Some (join [newline] data_lines)))"

text \<open>
  \<^verbatim>\<open>raw_data\<close> is what the downloader returned: \<open>None\<close> or a text. The result is
  \<open>Inr None\<close> for Python's \<^verbatim>\<open>return None\<close>, \<open>Inr (Some df)\<close> for a table, \<open>Inl e\<close> for
  an exception that leaves the function.
\<close>

definition parse_snow_data :: "csv_reader \<Rightarrow> string option \<Rightarrow> string \<Rightarrow> error + dataframe option" where
  "parse_snow_data read_csv raw_data station =
     (case raw_data of
        None \<Rightarrow> Inr None
      | Some raw \<Rightarrow>
          if raw = [] then Inr None
          else
            (case data_text raw of
               None \<Rightarrow> Inr None
             | Some block \<Rightarrow>
                 (case read_csv block of
                    Inl e \<Rightarrow> Inl e
                  | Inr df \<Rightarrow>
                      (case set_columns df new_columns of
                         Inl e \<Rightarrow> Inl e
                       | Inr df1 \<Rightarrow>
                           (case filter_notna (setitem_scalar df1 ''station'' (Str station))
                                   ''water_year'' of
                              Inl e \<Rightarrow> Inl e
                            | Inr df2 \<Rightarrow> Inr (Some df2))))))"

subsection \<open>The long-format pivot\<close>

text \<open>
  \<^verbatim>\<open>df[name] = series\<close>, one value per row: appended as a new column, or written over the
  columns of that name.
\<close>

definition setitem_series :: "dataframe \<Rightarrow> string \<Rightarrow> cell list \<Rightarrow> dataframe" where
  "setitem_series df name vs =
     (if name \<in> set (columns df)
      then df\<lparr>rows := map (\<lambda>(r, v). map (\<lambda>i. if columns df ! i = name then v else cell_at r i)
                                       [0..<length (columns df)]) (zip (rows df) vs)\<rparr>
      else append_series df name vs)"

text \<open>\<^verbatim>\<open>series.map(d)\<close> for a dictionary from texts to numbers: a cell that is no key of it becomes absent.\<close>

definition map_dict :: "(string \<times> int) list \<Rightarrow> cell \<Rightarrow> cell" where
  "map_dict d c =
     (case c of
        Str s \<Rightarrow> (case map_of d s of None \<Rightarrow> NaN | Some k \<Rightarrow> Num k)
      | _ \<Rightarrow> NaN)"

text \<open>
  \<^verbatim>\<open>df.sort_values(keys)\<close> on several keys: a stable sort, the rows compared key by key.
  Within a key the numbers come first, by size, then the texts, by their characters, and
  the absent cells last; a column that mixes numbers and texts is ordered so too, and
  nothing is raised for it. A key that is no column is a KeyError, one that names several
  columns a ValueError.
\<close>

fun cell_key :: "cell \<Rightarrow> nat \<times> int \<times> string" where
  "cell_key (Num n) = (0, n, [])"
| "cell_key (Str s) = (1, 0, s)"
| "cell_key NaN = (2, 0, [])"

definition sort_values :: "dataframe \<Rightarrow> string list \<Rightarrow> error + dataframe" where
  "sort_values df keys =
     (case filter (\<lambda>c. c \<notin> set (columns df)) keys of
        [] \<Rightarrow>
          if \<not> list_all (\<lambda>c. length (positions (columns df) c 0) = 1) keys then Inl ValueError
          else Inr (df\<lparr>rows := sort_key (\<lambda>r. map (\<lambda>c. cell_key (cell_of df r c)) keys) (rows df)\<rparr>)
      | missing \<Rightarrow> Inl (KeyError missing))"

definition id_cols :: "string list" where
  "id_cols = [''water_year'', ''station'', ''site_name'', ''county'', ''latitude'', ''longitude'']"

definition months :: "string list" where
  "months = [''Jan'', ''Feb'', ''Mar'', ''Apr'', ''May'', ''Jun'']"

definition measurement_cols :: "string list" where
  "measurement_cols = [''collection_date'', ''snow_depth_in'', ''swe_in'']"

definition month_order :: "(string \<times> int) list" where
  "month_order = [(''Jan'', 1), (''Feb'', 2), (''Mar'', 3), (''Apr'', 4), (''May'', 5), (''Jun'', 6)]"

text \<open>
  The body of the loop over the months: the identifier columns and the month's three
  columns are selected, renamed, tagged with the month, and the rows with no measurement
  at all are dropped. (The two \<^verbatim>\<open>print\<close> calls of the loop write to the console only.)
\<close>

definition month_frame :: "dataframe \<Rightarrow> string \<Rightarrow> error + dataframe" where
  "month_frame df month =
     (case getitem_cols df (id_cols @ [month @ ''_date'', month @ ''_snow_depth_in'', month @ ''_swe_in'']) of
        Inl e \<Rightarrow> Inl e
      | Inr month_df \<Rightarrow>
          (case set_columns month_df (id_cols @ measurement_cols) of
             Inl e \<Rightarrow> Inl e
           | Inr month_df1 \<Rightarrow>
               dropna_all (setitem_scalar month_df1 ''month'' (Str month)) measurement_cols))"

text \<open>The loop: the first exception ends it.\<close>

fun monthly_frames :: "dataframe \<Rightarrow> string list \<Rightarrow> error + dataframe list" where
  "monthly_frames df [] = Inr []"
| "monthly_frames df (month # ms) =
     (case month_frame df month of
        Inl e \<Rightarrow> Inl e
      | Inr month_df \<Rightarrow>
          (case monthly_frames df ms of
             Inl e \<Rightarrow> Inl e
           | Inr monthly_dfs \<Rightarrow> Inr (month_df # monthly_dfs)))"

definition long_columns :: "string list" where
  "long_columns = id_cols @ [''month'', ''collection_date'', ''snow_depth_in'', ''swe_in'']"

definition sort_keys :: "string list" where
  "sort_keys = [''county'', ''station'', ''water_year'', ''month_num'']"

definition pivot_to_long_format :: "dataframe \<Rightarrow> error + dataframe" where
  "pivot_to_long_format df =
     (case monthly_frames df months of
        Inl e \<Rightarrow> Inl e
      | Inr monthly_dfs \<Rightarrow>
          (case concat_frames monthly_dfs of
             Inl e \<Rightarrow> Inl e
           | Inr long_df \<Rightarrow>
               (case getitem_cols long_df long_columns of
                  Inl e \<Rightarrow> Inl e
                | Inr long_df1 \<Rightarrow>
                    (let month_num = map (\<lambda>r. map_dict month_order (cell_of long_df1 r ''month''))
                                       (rows long_df1);
                         long_df2 = setitem_series long_df1 ''month_num'' month_num
                     in case sort_values long_df2 sort_keys of
                          Inl e \<Rightarrow> Inl e
                        | Inr long_df3 \<Rightarrow> drop_column long_df3 ''month_num''))))"

text \<open>
  The key a row of the output is ordered by: county, station, water year, and the number
  of its month under \<^verbatim>\<open>month_order\<close>.
\<close>

definition order_key :: "dataframe \<Rightarrow> row \<Rightarrow> (nat \<times> int \<times> string) list" where
  "order_key out r =
     [cell_key (cell_of out r ''county''), cell_key (cell_of out r ''station''),
      cell_key (cell_of out r ''water_year''),
      cell_key (map_dict month_order (cell_of out r ''month''))]"

text \<open>A row of a long table with none of its three measurements.\<close>

definition all_absent :: "dataframe \<Rightarrow> row \<Rightarrow> bool" where
  "all_absent out r = list_all (\<lambda>c. isna (cell_of out r c)) measurement_cols"

subsection \<open>The reader on plain text\<close>

text \<open>
  What the reader of pandas does, with its default options, on a text without quotes and
  carriage returns whose header names are not empty: lines that are empty or hold only
  blanks and tabs are skipped; the first line left names the columns, a repeated name
  getting the suffix \<open>.1\<close>, \<open>.2\<close>, ...; a line with fewer fields than the table is wide is
  filled with absent cells; when the first data line has more fields than the header, its
  leading fields become the index and are no column; a later line with more fields than
  that is a ParserError; a field that is empty or one of the NA spellings is absent; a
  column whose fields are all whole numbers (white space around them and a sign allowed,
  within 64 bits) is numeric. A text with no line is an EmptyDataError.
\<close>

definition na_values :: "string list" where
  "na_values = ['''', ''#N/A'', ''#N/A N/A'', ''#NA'', ''-1.#IND'', ''-1.#QNAN'', ''-NaN'', ''-nan'',
                ''1.#IND'', ''1.#QNAN'', ''<NA>'', ''N/A'', ''NA'', ''NULL'', ''NaN'', ''None'', ''n/a'',
                ''nan'', ''null'']"

definition digit_chars :: string where
  "digit_chars = ''0123456789''"

fun digit_value :: "char \<Rightarrow> string \<Rightarrow> nat \<Rightarrow> nat" where
  "digit_value c [] i = 0"
| "digit_value c (d # ds) i = (if c = d then i else digit_value c ds (Suc i))"

definition nat_of_digits :: "string \<Rightarrow> nat" where
  "nat_of_digits ds = foldl (\<lambda>acc c. 10 * acc + digit_value c digit_chars 0) 0 ds"

definition is_space :: "char \<Rightarrow> bool" where
  "is_space c = (c \<in> set [CHR '' '', CHR 0x09, CHR 0x0A, CHR 0x0B, CHR 0x0C, CHR 0x0D])"

definition strip :: "string \<Rightarrow> string" where
  "strip s = rev (dropWhile is_space (rev (dropWhile is_space s)))"

definition parse_int :: "string \<Rightarrow> int option" where
  "parse_int s =
     (let t = strip s;
          negative = startswith t ''-'';
          ds = (if negative \<or> startswith t ''+'' then drop 1 t else t)
      in if ds \<noteq> [] \<and> list_all (\<lambda>c. c \<in> set digit_chars) ds
         then (let n = (if negative then - int (nat_of_digits ds) else int (nat_of_digits ds))
               in if - (2 ^ 63) \<le> n \<and> n < 2 ^ 63 then Some n else None)
         else None)"

fun show_nat :: "nat \<Rightarrow> string" where
  "show_nat n =
     (if n < 10 then [digit_chars ! n] else show_nat (n div 10) @ [digit_chars ! (n mod 10)])"

fun mangle_dupe_cols :: "string list \<Rightarrow> string list \<Rightarrow> string list" where
  "mangle_dupe_cols seen [] = []"
| "mangle_dupe_cols seen (n # ns) =
     (if n \<in> set seen then n @ ''.'' @ show_nat (count_list seen n) else n)
       # mangle_dupe_cols (seen @ [n]) ns"

definition to_cell :: "bool \<Rightarrow> string \<Rightarrow> cell" where
  "to_cell numeric f =
     (if f \<in> set na_values then NaN
      else if numeric then (case parse_int f of Some n \<Rightarrow> Num n | None \<Rightarrow> NaN)
      else Str f)"

definition blank_line :: "string \<Rightarrow> bool" where
  "blank_line l = list_all (\<lambda>c. c = CHR '' '' \<or> c = CHR 0x09) l"

definition read_csv_plain :: csv_reader where
  "read_csv_plain raw =
     (case filter (\<lambda>l. \<not> blank_line l) (split_on newline raw) of
        [] \<Rightarrow> Inl EmptyDataError
      | header # data \<Rightarrow>
          (let names = split_on CHR '','' header;
               recs = map (split_on CHR '','') data;
               width = (case recs of [] \<Rightarrow> length names | r # _ \<Rightarrow> max (length names) (length r));
               lead = width - length names
           in if list_all (\<lambda>r. length r \<le> width) recs
              then (let padded = map (\<lambda>r. drop lead (r @ replicate (width - length r) [])) recs;
                        numeric = map (\<lambda>j. list_all (\<lambda>r. r ! j \<in> set na_values \<or> parse_int (r ! j) \<noteq> None) padded)
                                    [0..<length names]
                    in Inr \<lparr>columns = mangle_dupe_cols [] names,
                             rows = map (\<lambda>r. map (\<lambda>(b, f). to_cell b f) (zip numeric r)) padded\<rparr>)
              else Inl ParserError))"

subsection \<open>Well-formed reports\<close>

text \<open>
  The water-year field of a line is its text before the first comma. A report is
  well-formed when one of its lines starts with the marker and, from the first such line
  on: the text is printable ASCII without quotes; that header line has 19 fields; the line
  after it, the description of the measurements, is there and has no water year; and
  every later line is empty or a record of 19 fields whose water-year field is empty or a
  year of one to four digits. The water years present in the source are the water-year
  fields, not empty, of the lines after the header, in their order.
\<close>

definition water_year_field :: "string \<Rightarrow> string" where
  "water_year_field l = takeWhile (\<lambda>c. c \<noteq> CHR '','') l"

definition is_year :: "string \<Rightarrow> bool" where
  "is_year f = (f \<noteq> [] \<and> length f \<le> 4 \<and> list_all (\<lambda>c. c \<in> set digit_chars) f)"

definition plain_char :: "char \<Rightarrow> bool" where
  "plain_char c = (32 \<le> (of_char c :: nat) \<and> (of_char c :: nat) < 127 \<and> c \<noteq> CHR 0x22)"

definition record_line :: "string \<Rightarrow> bool" where
  "record_line l =
     (length (split_on CHR '','' l) = 19 \<and> (water_year_field l = [] \<or> is_year (water_year_field l)))"

definition well_formed_report :: "string \<Rightarrow> bool" where
  "well_formed_report raw =
     (let lines = split_on newline raw in
      case find_data_start lines 0 of
        None \<Rightarrow> False
      | Some k \<Rightarrow>
          list_all (list_all plain_char) (drop k lines) \<and>
          length (split_on CHR '','' (lines ! k)) = 19 \<and>
          Suc k < length lines \<and>
          water_year_field (lines ! Suc k) = [] \<and>
          list_all (\<lambda>l. l = [] \<or> record_line l) (drop (k + 2) lines))"

definition source_water_years :: "string \<Rightarrow> string list" where
  "source_water_years raw =
     (let lines = split_on newline raw in
      case find_data_start lines 0 of
        None \<Rightarrow> []
      | Some k \<Rightarrow> filter (\<lambda>f. f \<noteq> []) (map water_year_field (drop (Suc k) lines)))"

subsection \<open>The outside world\<close>

text \<open>
  What \<^verbatim>\<open>requests.get(url, timeout=30)\<close> does is the service's: it raises a request
  exception or returns a response with a status code and a text. The console, the
  requests made, the pauses and the files written are the state of a run.
\<close>

datatype http_outcome = Raises error | Response nat string

type_synonym http = "string \<Rightarrow> http_outcome"

datatype message =
    FetchingList
  | Found nat
  | Downloading nat nat cell cell
  | ErrorDownloading string error
  | GotYears nat
  | NoDataAvailable
  | DownloadedSites nat
  | SavedTo string
  | TotalRows nat
  | NoDataDownloaded

record world =
  console :: "message list"
  requested :: "string list"
  slept :: "int list"
  files :: "(string \<times> dataframe) list"

definition say :: "message \<Rightarrow> world \<Rightarrow> world" where
  "say m w = w\<lparr>console := console w @ [m]\<rparr>"

subsection \<open>The station data downloader\<close>

text \<open>\<^verbatim>\<open>response.raise_for_status()\<close>: an HTTPError for a status from 400 to 599.\<close>

definition raise_for_status :: "nat \<Rightarrow> string \<Rightarrow> error + unit" where
  "raise_for_status status url =
     (if 400 \<le> status \<and> status < 600 then Inl (HTTPError status url) else Inr ())"

definition report_url :: "string \<Rightarrow> string" where
  "report_url site_num =
     ''https://wcc.sc.egov.usda.gov/reportGenerator/view_csv/customGroupByMonthReport/monthly/''
     @ site_num
     @ '':CO:SNOW%7Cid=%22%22%7Cname/POR_BEGIN,POR_END:1,2,3,4,5,6/WTEQ::collectionDate,SNWD::value,WTEQ::value''"

text \<open>The body of the \<^verbatim>\<open>try\<close>: the text of the response, or the exception raised.\<close>

definition fetch_text :: "http \<Rightarrow> string \<Rightarrow> error + string" where
  "fetch_text get url =
     (case get url of
        Raises e \<Rightarrow> Inl e
      | Response status body \<Rightarrow>
          (case raise_for_status status url of
             Inl e \<Rightarrow> Inl e
           | Inr u \<Rightarrow> Inr body))"

text \<open>\<^verbatim>\<open>except Exception as e\<close> takes every exception of the body: it is printed and \<^verbatim>\<open>None\<close> returned.\<close>

definition download_site_data :: "http \<Rightarrow> string \<Rightarrow> world \<Rightarrow> (error + string option) \<times> world" where
  "download_site_data get site_num w =
     (let url = report_url site_num;
          w1 = w\<lparr>requested := requested w @ [url]\<rparr>
      in case fetch_text get url of
           Inl e \<Rightarrow> (Inr None, say (ErrorDownloading site_num e) w1)
         | Inr body \<Rightarrow> (Inr (Some body), w1))"

subsection \<open>The aggregator\<close>

text \<open>
  \<^verbatim>\<open>get_colorado_sites\<close> scrapes the directory page; the model starts from what the
  scraping found: for each matching link the station, the site name, the latitude, the
  longitude and the county, or the exception of the request. The dictionaries appended to
  \<^verbatim>\<open>sites\<close> have the keys \<^verbatim>\<open>station\<close>, \<^verbatim>\<open>site_name\<close>, \<^verbatim>\<open>latitude\<close>, \<^verbatim>\<open>longitude\<close>,
  \<^verbatim>\<open>county\<close>, which are the columns of the table returned; the table of an empty list has
  no column.
\<close>

type_synonym site_entry = "string \<times> string \<times> string \<times> string \<times> string"

definition get_colorado_sites :: "site_entry list \<Rightarrow> dataframe" where
  "get_colorado_sites sites =
     (if sites = [] then \<lparr>columns = [], rows = []\<rparr>
      else \<lparr>columns = [''station'', ''site_name'', ''latitude'', ''longitude'', ''county''],
            rows = map (\<lambda>(station, site_name, latitude, longitude, county).
                          [Str station, Str site_name, Str latitude, Str longitude, Str county]) sites\<rparr>)"

text \<open>\<^verbatim>\<open>row[name]\<close> on a row of \<^verbatim>\<open>iterrows()\<close>: KeyError for a name that is no column.\<close>

definition row_getitem :: "dataframe \<Rightarrow> row \<Rightarrow> string \<Rightarrow> error + cell" where
  "row_getitem df r name =
     (if name \<in> set (columns df) then Inr (cell_of df r name) else Inl (KeyError [name]))"

text \<open>
  A call with positional arguments: Python raises TypeError unless the function has as
  many parameters as the call gives arguments. \<^verbatim>\<open>download_site_data(site_num)\<close> has one
  parameter and \<^verbatim>\<open>parse_snow_data(raw_data, station)\<close> two.
\<close>

definition check_arity :: "nat \<Rightarrow> nat \<Rightarrow> error + unit" where
  "check_arity parameters arguments = (if arguments = parameters then Inr () else Inl TypeError)"

text \<open>\<^verbatim>\<open>str(x)\<close> of a cell, as an f-string formats it.\<close>

definition cell_str :: "cell \<Rightarrow> string" where
  "cell_str c =
     (case c of
        NaN \<Rightarrow> ''nan''
      | Num n \<Rightarrow> (if n < 0 then ''-'' @ show_nat (nat (- n)) else show_nat (nat n))
      | Str s \<Rightarrow> s)"

definition truthy :: "string option \<Rightarrow> bool" where
  "truthy raw_data = (case raw_data of None \<Rightarrow> False | Some s \<Rightarrow> s \<noteq> [])"

text \<open>
  The body of the loop over \<^verbatim>\<open>sites_df.iterrows()\<close>, for the row \<open>r\<close> of index \<open>idx\<close>:
  the list \<^verbatim>\<open>all_data\<close> and the world go in, and come out unless an exception leaves the
  loop. The call of the downloader gives two arguments (\<^verbatim>\<open>site_num, site_name\<close>) and the
  call of the parser three (\<^verbatim>\<open>raw_data, site_num, site_name\<close>).
\<close>

definition process_site ::
  "http \<Rightarrow> csv_reader \<Rightarrow> dataframe \<Rightarrow> int \<Rightarrow> nat \<Rightarrow> row \<Rightarrow> dataframe list \<Rightarrow> world
     \<Rightarrow> (error + dataframe list) \<times> world" where
  "process_site get read_csv sites_df delay idx r all_data w =
     (case row_getitem sites_df r ''site_num'' of
        Inl e \<Rightarrow> (Inl e, w)
      | Inr site_num \<Rightarrow>
          (case row_getitem sites_df r ''site_name'' of
             Inl e \<Rightarrow> (Inl e, w)
           | Inr site_name \<Rightarrow>
               (let w1 = say (Downloading (idx + 1) (length (rows sites_df)) site_name site_num) w
                in case check_arity 1 2 of
                     Inl e \<Rightarrow> (Inl e, w1)
                   | Inr u \<Rightarrow>
                       (case download_site_data get (cell_str site_num) w1 of
                          (Inl e, w2) \<Rightarrow> (Inl e, w2)
                        | (Inr raw_data, w2) \<Rightarrow>
                            if truthy raw_data
                            then (case check_arity 2 3 of
                                    Inl e \<Rightarrow> (Inl e, w2)
                                  | Inr u \<Rightarrow>
                                      (case parse_snow_data read_csv raw_data (cell_str site_num) of
                                         Inl e \<Rightarrow> (Inl e, w2)
                                       | Inr None \<Rightarrow>
                                           (Inr all_data, (say NoDataAvailable w2)\<lparr>slept := slept w2 @ [delay]\<rparr>)
                                       | Inr (Some df) \<Rightarrow>
                                           if length (rows df) > 0
                                           then (Inr (all_data @ [df]),
                                                 (say (GotYears (length (rows df))) w2)\<lparr>slept := slept w2 @ [delay]\<rparr>)
                                           else (Inr all_data,
                                                 (say NoDataAvailable w2)\<lparr>slept := slept w2 @ [delay]\<rparr>)))
                            else (Inr all_data, w2\<lparr>slept := slept w2 @ [delay]\<rparr>)))))"

text \<open>The loop: the rows in the order of the directory, the first exception ending the run.\<close>

fun sites_loop ::
  "http \<Rightarrow> csv_reader \<Rightarrow> dataframe \<Rightarrow> int \<Rightarrow> nat \<Rightarrow> row list \<Rightarrow> dataframe list \<Rightarrow> world
     \<Rightarrow> (error + dataframe list) \<times> world" where
  "sites_loop get read_csv sites_df delay idx [] all_data w = (Inr all_data, w)"
| "sites_loop get read_csv sites_df delay idx (r # rs) all_data w =
     (case process_site get read_csv sites_df delay idx r all_data w of
        (Inl e, w1) \<Rightarrow> (Inl e, w1)
      | (Inr all_data1, w1) \<Rightarrow> sites_loop get read_csv sites_df delay (Suc idx) rs all_data1 w1)"

text \<open>
  What follows the loop: the tables are concatenated and written to \<^verbatim>\<open>save_path\<close>, or,
  when \<^verbatim>\<open>all_data\<close> is empty, a message is printed and \<^verbatim>\<open>None\<close> returned.
\<close>

definition save_all :: "string \<Rightarrow> dataframe list \<Rightarrow> world \<Rightarrow> (error + dataframe option) \<times> world" where
  "save_all save_path all_data w =
     (if all_data \<noteq> []
      then (case concat_frames all_data of
              Inl e \<Rightarrow> (Inl e, w)
            | Inr combined_df \<Rightarrow>
                (Inr (Some combined_df),
                 say (TotalRows (length (rows combined_df)))
                   (say (SavedTo save_path)
                     (say (DownloadedSites (length all_data))
                       (w\<lparr>files := files w @ [(save_path, combined_df)]\<rparr>)))))
      else (Inr None, say NoDataDownloaded w))"

text \<open>
  The run up to the end of the loop: the directory is fetched (an exception there ends the
  run), its size printed and every row processed. It returns \<^verbatim>\<open>all_data\<close>.
\<close>

definition collect_all_data ::
  "(error + site_entry list) \<Rightarrow> http \<Rightarrow> csv_reader \<Rightarrow> int \<Rightarrow> world
     \<Rightarrow> (error + dataframe list) \<times> world" where
  "collect_all_data directory get read_csv delay w =
     (case directory of
        Inl e \<Rightarrow> (Inl e, say FetchingList w)
      | Inr sites \<Rightarrow>
          (let sites_df = get_colorado_sites sites;
               w1 = say (Found (length (rows sites_df))) (say FetchingList w)
           in sites_loop get read_csv sites_df delay 0 (rows sites_df) [] w1))"

definition download_all_colorado_sites ::
  "(error + site_entry list) \<Rightarrow> http \<Rightarrow> csv_reader \<Rightarrow> string \<Rightarrow> int \<Rightarrow> world
     \<Rightarrow> (error + dataframe option) \<times> world" where
  "download_all_colorado_sites directory get read_csv save_path delay w =
     (case collect_all_data directory get read_csv delay w of
        (Inl e, w2) \<Rightarrow> (Inl e, w2)
      | (Inr all_data, w2) \<Rightarrow> save_all save_path all_data w2)"

subsection \<open>Sample data\<close>

text \<open>A report of one station: a comment line, the header, the description line, one year of
  measurements and a line with no water year.\<close>

definition sample_report :: string where
  "sample_report =
     ''# Snow course report'' @ [newline] @
     ''Water Year,Jan,Jan,Jan,Feb,Feb,Feb,Mar,Mar,Mar,Apr,Apr,Apr,May,May,May,Jun,Jun,Jun'' @ [newline] @
     '',Collection Date,Snow Depth (in),Snow Water Equivalent (in)'' @ [newline] @
     ''1936,,,,Jan 30,35,10.2,,,,Mar 28,41,13.5,,,,,,'' @ [newline] @
     '',,,,,,,,,,,,,,,,,,'' @ [newline]"



definition sample_wide :: dataframe where
  "sample_wide =
     \<lparr>columns = new_columns @ [''station''],
      rows = [[Num 1936, NaN, NaN, NaN, Str ''Jan 30'', Num 35, Str ''10.2'', NaN, NaN, NaN,
               Str ''Mar 28'', Num 41, Str ''13.5'', NaN, NaN, NaN, NaN, NaN, NaN, Str ''05J03'']]\<rparr>"

text \<open>A report cut short: its header names two columns only.\<close>

definition short_report :: string where
  "short_report =
     ''Water Year,Jan'' @ [newline] @ '',Collection Date'' @ [newline] @ ''1936,Jan 30'' @ [newline]"

definition short_block :: string where
  "short_block = ''Water Year,Jan'' @ [newline] @ ''1936,Jan 30'' @ [newline]"

definition short_read :: dataframe where
  "short_read = \<lparr>columns = [''Water Year'', ''Jan''], rows = [[Num 1936, Str ''Jan 30'']]\<rparr>"

text \<open>
  A wide table of one station with its directory data: 1935 has a March measurement only,
  1936 one in January and one in April.
\<close>

definition sample_pivot_input :: dataframe where
  "sample_pivot_input =
     \<lparr>columns = new_columns @ [''station'', ''site_name'', ''county'', ''latitude'', ''longitude''],
      rows = [[Num 1936, Str ''Jan 30'', Num 35, Str ''10.2'', NaN, NaN, NaN, NaN, NaN, NaN,
               Str ''Mar 28'', Num 41, Str ''13.5'', NaN, NaN, NaN, NaN, NaN, NaN,
               Str ''05J03'', Str ''Berthoud Pass'', Str ''Grand'', Str ''39.80'', Str ''-105.78''],
              [Num 1935, NaN, NaN, NaN, NaN, NaN, NaN, Str ''Mar 01'', Num 50, NaN,
               NaN, NaN, NaN, NaN, NaN, NaN, NaN, NaN, NaN,
               Str ''05J03'', Str ''Berthoud Pass'', Str ''Grand'', Str ''39.80'', Str ''-105.78'']]\<rparr>"

definition sample_long :: dataframe where
  "sample_long =
     \<lparr>columns = long_columns,
      rows = [[Num 1935, Str ''05J03'', Str ''Berthoud Pass'', Str ''Grand'', Str ''39.80'', Str ''-105.78'',
               Str ''Mar'', Str ''Mar 01'', Num 50, NaN],
              [Num 1936, Str ''05J03'', Str ''Berthoud Pass'', Str ''Grand'', Str ''39.80'', Str ''-105.78'',
               Str ''Jan'', Str ''Jan 30'', Num 35, Str ''10.2''],
              [Num 1936, Str ''05J03'', Str ''Berthoud Pass'', Str ''Grand'', Str ''39.80'', Str ''-105.78'',
               Str ''Apr'', Str ''Mar 28'', Num 41, Str ''13.5'']]\<rparr>"


text \<open>
  A directory of three stations and a service that answers the first with the sample
  report, fails on the second with a timeout and answers the third with status 404.
\<close>

definition three_sites :: "site_entry list" where
  "three_sites =
     [(''05J03'', ''Berthoud Pass'', ''39.80'', ''-105.78'', ''Grand''),
      (''05K09'', ''Arrow'', ''39.91'', ''-105.75'', ''Grand''),
      (''06J15'', ''Cameron Pass'', ''40.52'', ''-105.89'', ''Larimer'')]"

definition sample_http :: http where
  "sample_http url =
     (if url = report_url ''05J03'' then Response 200 sample_report
      else if url = report_url ''05K09'' then Raises (Timeout ''read timed out'')
      else Response 404 ''Not Found'')"

text \<open>A service that is down: every request fails.\<close>

definition failing_http :: http where
  "failing_http url = Raises (ConnectionError ''connection refused'')"

definition world0 :: world where
  "world0 = \<lparr>console = [], requested = [], slept = [], files = []\<rparr>"

definition one_site :: "site_entry list" where
  "one_site = [(''05J03'', ''Berthoud Pass'', ''39.80'', ''-105.78'', ''Grand'')]"

subsection \<open>Notions for the proofs about the pivot\<close>

text \<open>
  The columns of a per-month table, the rows it can hold (ten cells, a measurement among
  the cells 6 to 8, a month in cell 9), and what the later steps of the pivot do to a row:
  the selection of \<^verbatim>\<open>long_columns\<close>, the added \<^verbatim>\<open>month_num\<close>, the key of the sort and
  the removal of \<^verbatim>\<open>month_num\<close>.
\<close>

definition month_columns :: "string list" where
  "month_columns = id_cols @ measurement_cols @ [''month'']"

definition long_ok :: "row \<Rightarrow> bool" where
  "long_ok r = (length r = 10 \<and> \<not> (r ! 6 = NaN \<and> r ! 7 = NaN \<and> r ! 8 = NaN) \<and> r ! 9 \<in> Str ` set months)"

definition reorder :: "row \<Rightarrow> row" where
  "reorder r = map (cell_at r) [0, 1, 2, 3, 4, 5, 9, 6, 7, 8]"

definition with_month_num :: "row \<Rightarrow> row" where
  "with_month_num r = r @ [map_dict month_order (cell_at r 6)]"

definition sort_key_of :: "row \<Rightarrow> (nat \<times> int \<times> string) list" where
  "sort_key_of r = [cell_key (cell_at r 3), cell_key (cell_at r 1), cell_key (cell_at r 0), cell_key (cell_at r 10)]"

definition without_month_num :: "row \<Rightarrow> row" where
  "without_month_num r = map (cell_at r) [0, 1, 2, 3, 4, 5, 6, 7, 8, 9]"

text \<open>The columns the pivot reads from a wide table.\<close>

definition wide_columns :: "string list" where
  "wide_columns =
     id_cols @ concat (map (\<lambda>month. [month @ ''_date'', month @ ''_snow_depth_in'', month @ ''_swe_in'']) months)"

section \<open>Properties\<close>

subsection \<open>The parser\<close>

lemma find_data_start_None:
  "find_data_start ls i = None \<longleftrightarrow> list_all (\<lambda>line. \<not> startswith line marker) ls"
  by (induction ls arbitrary: i) auto

lemma data_text_None:
  "data_text raw = None \<longleftrightarrow> list_all (\<lambda>line. \<not> startswith line marker) (split_on newline raw)"
proof (cases "find_data_start (split_on newline raw) 0")
  case None
  then show ?thesis
    using find_data_start_None [of "split_on newline raw" 0] by (simp add: data_text_def)
next
  case (Some k)
  then show ?thesis
    using find_data_start_None [of "split_on newline raw" 0] by (simp add: data_text_def Let_def)
qed



lemma data_text_short: "data_text short_report = Some short_block"
  by code_simp

lemma read_short_block: "read_csv_plain short_block = Inr short_read"
  by code_simp

text \<open>
  C10. A falsy \<^verbatim>\<open>raw_data\<close>, that is \<^verbatim>\<open>None\<close> or the empty text, makes
  \<^verbatim>\<open>parse_snow_data\<close> return \<^verbatim>\<open>None\<close> whatever the reader would do: nothing is
  parsed, and an empty response body is treated as a failed download is.
\<close>

theorem parse_snow_data_falsy:
  "parse_snow_data read_csv None station = Inr None \<and>
   parse_snow_data read_csv (Some []) station = Inr None"
  by (simp add: parse_snow_data_def)

text \<open>
  C4. When no line of the raw report begins with the marker \<^verbatim>\<open>Water Year,\<close>,
  \<^verbatim>\<open>parse_snow_data\<close> returns \<^verbatim>\<open>None\<close> and raises nothing, whatever the reader.
\<close>

theorem parse_snow_data_no_marker:
  assumes "list_all (\<lambda>line. \<not> startswith line marker) (split_on newline raw)"
  shows "parse_snow_data read_csv (Some raw) station = Inr None"
proof -
  from assms have "data_text raw = None"
    by (simp add: data_text_None)
  then show ?thesis
    by (simp add: parse_snow_data_def)
qed

theorem parse_snow_data_no_marker_witness:
  "list_all (\<lambda>line. \<not> startswith line marker) (split_on newline ''# no data for this station'') \<and>
   parse_snow_data read_csv_plain (Some ''# no data for this station'') ''05J03'' = Inr None"
proof -
  have h: "list_all (\<lambda>line. \<not> startswith line marker) (split_on newline ''# no data for this station'')"
    by code_simp
  show ?thesis
    using h parse_snow_data_no_marker [OF h, of read_csv_plain "''05J03''"] by simp
qed

text \<open>
  C6. When the data block after the marker line is read as a table whose number of
  columns is not the 19 of the fixed names, \<^verbatim>\<open>parse_snow_data\<close> raises (the ValueError of
  the column assignment); it returns no table.
\<close>

theorem parse_snow_data_shape_mismatch:
  assumes "raw \<noteq> []"
      and "data_text raw = Some block"
      and "read_csv block = Inr df"
      and "length (columns df) \<noteq> 19"
  shows "parse_snow_data read_csv (Some raw) station = Inl ValueError"
  using assms by (simp add: parse_snow_data_def set_columns_def new_columns_def month_names_def)

theorem parse_snow_data_shape_mismatch_witness:
  "short_report \<noteq> [] \<and> length (columns short_read) \<noteq> 19 \<and>
   parse_snow_data read_csv_plain (Some short_report) ''05J03'' = Inl ValueError"
proof -
  have a: "short_report \<noteq> []"
    by (simp add: short_report_def)
  have b: "length (columns short_read) \<noteq> 19"
    by (simp add: short_read_def)
  show ?thesis
    using a b
      parse_snow_data_shape_mismatch
        [where raw = short_report and block = short_block and read_csv = read_csv_plain
           and df = short_read and station = "''05J03''",
         OF a data_text_short read_short_block b]
    by simp
qed








subsection \<open>The pivot\<close>

lemma getitem_cols_Inr:
  assumes "getitem_cols df cols = Inr g"
  shows "\<exists>picks. columns g = map (\<lambda>i. columns df ! i) picks \<and>
                 rows g = map (\<lambda>r. map (cell_at r) picks) (rows df)"
  using assms by (auto simp: getitem_cols_def Let_def split: list.splits)

lemma cell_of_month_columns:
  "cell_of \<lparr>columns = month_columns, rows = xs\<rparr> r ''collection_date'' = cell_at r 6"
  "cell_of \<lparr>columns = month_columns, rows = xs\<rparr> r ''snow_depth_in'' = cell_at r 7"
  "cell_of \<lparr>columns = month_columns, rows = xs\<rparr> r ''swe_in'' = cell_at r 8"
  by (simp_all add: cell_of_def month_columns_def id_cols_def measurement_cols_def eval_nat_numeral)

lemma month_frame_Inr:
  assumes "month_frame df m = Inr mf"
  shows "columns mf = month_columns \<and> list_all (\<lambda>r. length r = 10 \<and> \<not> (r ! 6 = NaN \<and> r ! 7 = NaN \<and> r ! 8 = NaN) \<and> r ! 9 = Str m) (rows mf)"
proof -
  from assms obtain g where g: "getitem_cols df (id_cols @ [m @ ''_date'', m @ ''_snow_depth_in'', m @ ''_swe_in'']) = Inr g"
    by (auto simp: month_frame_def split: sum.splits)
  from getitem_cols_Inr [OF g] obtain picks where
    picks: "columns g = map (\<lambda>i. columns df ! i) picks"
           "rows g = map (\<lambda>r. map (cell_at r) picks) (rows df)"
    by blast
  from assms g have len: "length (columns g) = 9"
    by (auto simp: month_frame_def set_columns_def id_cols_def measurement_cols_def split: sum.splits if_splits)
  with picks have lp: "length picks = 9" by simp
  have tag: "setitem_scalar (g\<lparr>columns := id_cols @ measurement_cols\<rparr>) ''month'' (Str m) =
     \<lparr>columns = month_columns, rows = map (\<lambda>r. r @ [Str m]) (rows g)\<rparr>"
    by (simp add: setitem_scalar_def month_columns_def id_cols_def measurement_cols_def)
  from assms g len tag have mf: "dropna_all \<lparr>columns = month_columns, rows = map (\<lambda>r. r @ [Str m]) (rows g)\<rparr> measurement_cols = Inr mf"
    by (simp add: month_frame_def set_columns_def id_cols_def measurement_cols_def)
  have present: "filter (\<lambda>c. c \<notin> set month_columns) measurement_cols = []"
    by (simp add: month_columns_def id_cols_def measurement_cols_def)
  from mf present have mf_eq: "mf = \<lparr>columns = month_columns,
       rows = filter (\<lambda>r. \<not> list_all (\<lambda>c. isna (cell_of \<lparr>columns = month_columns, rows = map (\<lambda>r. r @ [Str m]) (rows g)\<rparr> r c)) measurement_cols)
                (map (\<lambda>r. r @ [Str m]) (rows g))\<rparr>"
    by (simp add: dropna_all_def)
  have "length r = 10 \<and> \<not> (r ! 6 = NaN \<and> r ! 7 = NaN \<and> r ! 8 = NaN) \<and> r ! 9 = Str m"
    if "r \<in> set (rows mf)" for r
  proof -
    from that mf_eq obtain r0 where r0: "r0 \<in> set (rows g)" "r = r0 @ [Str m]"
      and keep: "\<not> list_all (\<lambda>c. isna (cell_of \<lparr>columns = month_columns, rows = map (\<lambda>r. r @ [Str m]) (rows g)\<rparr> r c)) measurement_cols"
      by auto
    from r0 picks lp have l0: "length r0 = 9" by auto
    with r0 have l: "length r = 10" and m: "r ! 9 = Str m" by (simp_all add: nth_append)
    from keep l have "\<not> (r ! 6 = NaN \<and> r ! 7 = NaN \<and> r ! 8 = NaN)"
      unfolding measurement_cols_def
      by (simp add: cell_of_month_columns isna_def cell_at_def)
    with l m show ?thesis by simp
  qed
  with mf_eq show ?thesis by (simp add: list_all_iff)
qed

lemma monthly_frames_Inr:
  "monthly_frames df ms = Inr fs \<Longrightarrow> list_all2 (\<lambda>m f. month_frame df m = Inr f) ms fs"
  by (induction ms arbitrary: fs) (auto split: sum.splits)

lemma monthly_frames_columns:
  "monthly_frames df ms = Inr fs \<Longrightarrow> list_all (\<lambda>f. columns f = month_columns) fs \<and> length fs = length ms"
proof (induction ms arbitrary: fs)
  case Nil
  then show ?case by simp
next
  case (Cons m ms)
  then show ?case
    by (auto split: sum.splits dest: month_frame_Inr)
qed

lemma monthly_frames_rows:
  "monthly_frames df ms = Inr fs \<Longrightarrow> set ms \<subseteq> set months \<Longrightarrow>
   list_all long_ok (concat (map rows fs))"
proof (induction ms arbitrary: fs)
  case Nil
  then show ?case by simp
next
  case (Cons m ms)
  from Cons.prems obtain f fs' where f: "month_frame df m = Inr f"
     and fs': "monthly_frames df ms = Inr fs'" and fs: "fs = f # fs'"
    by (auto split: sum.splits)
  from month_frame_Inr [OF f] Cons.prems(2) have "list_all long_ok (rows f)"
    by (auto simp: list_all_iff long_ok_def)
  moreover from Cons.IH [OF fs'] Cons.prems(2) have "list_all long_ok (concat (map rows fs'))"
    by simp
  ultimately show ?case using fs by simp
qed

lemma concat_frames_same:
  assumes "fs \<noteq> []" and "list_all (\<lambda>f. columns f = cs) fs"
  shows "concat_frames fs = Inr \<lparr>columns = cs, rows = concat (map rows fs)\<rparr>"
  using assms by (cases fs) (auto simp: concat_frames_def list_all_iff)

lemma getitem_long_columns:
  "getitem_cols \<lparr>columns = month_columns, rows = xs\<rparr> long_columns =
     Inr \<lparr>columns = long_columns, rows = map reorder xs\<rparr>"
  by (simp add: getitem_cols_def month_columns_def long_columns_def id_cols_def measurement_cols_def
        reorder_def eval_nat_numeral)

lemma cell_of_long_month:
  "cell_of \<lparr>columns = long_columns, rows = xs\<rparr> r ''month'' = cell_at r 6"
  by (simp add: cell_of_def long_columns_def id_cols_def eval_nat_numeral)

lemma setitem_month_num:
  "setitem_series \<lparr>columns = long_columns, rows = xs\<rparr> ''month_num''
      (map (\<lambda>r. map_dict month_order (cell_of \<lparr>columns = long_columns, rows = xs\<rparr> r ''month'')) xs) =
     \<lparr>columns = long_columns @ [''month_num''], rows = map with_month_num xs\<rparr>"
proof -
  have "''month_num'' \<notin> set long_columns"
    by (simp add: long_columns_def id_cols_def)
  moreover have "map (\<lambda>(r, v). r @ [v]) (zip xs (map f xs)) = map (\<lambda>r. r @ [f r]) xs" for f :: "row \<Rightarrow> cell"
    by (induction xs) simp_all
  ultimately show ?thesis
    by (simp add: setitem_series_def append_series_def cell_of_long_month with_month_num_def)
qed

lemma cell_of_sorted_frame:
  "map (\<lambda>c. cell_key (cell_of \<lparr>columns = long_columns @ [''month_num''], rows = xs\<rparr> r c)) sort_keys = sort_key_of r"
  by (simp add: cell_of_def long_columns_def id_cols_def sort_keys_def sort_key_of_def eval_nat_numeral)

lemma sort_values_long:
  assumes "sort_values \<lparr>columns = long_columns @ [''month_num''], rows = xs\<rparr> sort_keys = Inr s"
  shows "s = \<lparr>columns = long_columns @ [''month_num''], rows = sort_key sort_key_of xs\<rparr>"
  using assms
  by (auto simp: sort_values_def cell_of_sorted_frame split: list.splits if_splits)

lemma drop_month_num:
  "drop_column \<lparr>columns = long_columns @ [''month_num''], rows = xs\<rparr> ''month_num'' =
     Inr \<lparr>columns = long_columns, rows = map without_month_num xs\<rparr>"
  by (simp add: drop_column_def long_columns_def id_cols_def without_month_num_def eval_nat_numeral)

lemma pivot_to_long_format_Inr:
  assumes "pivot_to_long_format df = Inr out"
  shows "\<exists>xs. list_all long_ok xs \<and>
           out = \<lparr>columns = long_columns,
                  rows = map without_month_num (sort_key sort_key_of (map with_month_num (map reorder xs)))\<rparr>"
proof -
  from assms obtain fs where fs: "monthly_frames df months = Inr fs"
    by (auto simp: pivot_to_long_format_def split: sum.splits)
  from monthly_frames_columns [OF fs] have cols: "list_all (\<lambda>f. columns f = month_columns) fs" and ne: "fs \<noteq> []"
    by (auto simp: months_def)
  define xs where "xs = concat (map rows fs)"
  from monthly_frames_rows [OF fs] have ok: "list_all long_ok xs"
    by (simp add: xs_def)
  from concat_frames_same [OF ne cols] have c: "concat_frames fs = Inr \<lparr>columns = month_columns, rows = xs\<rparr>"
    by (simp add: xs_def)
  from assms fs c obtain s where
    s: "sort_values \<lparr>columns = long_columns @ [''month_num''], rows = map with_month_num (map reorder xs)\<rparr> sort_keys = Inr s"
    and d: "drop_column s ''month_num'' = Inr out"
    by (auto simp: pivot_to_long_format_def getitem_long_columns Let_def setitem_month_num
          simp del: map_map split: sum.splits)
  from sort_values_long [OF s] d have "out = \<lparr>columns = long_columns,
                  rows = map without_month_num (sort_key sort_key_of (map with_month_num (map reorder xs)))\<rparr>"
    by (simp add: drop_month_num)
  with ok show ?thesis by blast
qed

lemma reorder_long_ok:
  assumes "long_ok x"
  shows "reorder x = [x ! 0, x ! 1, x ! 2, x ! 3, x ! 4, x ! 5, x ! 9, x ! 6, x ! 7, x ! 8]"
  using assms by (simp add: long_ok_def reorder_def cell_at_def)

lemma without_with_month_num:
  assumes "long_ok x"
  shows "without_month_num (with_month_num (reorder x)) = reorder x"
  by (simp add: reorder_long_ok [OF assms] with_month_num_def without_month_num_def cell_at_def
        eval_nat_numeral)

lemma cell_of_long_columns:
  "cell_of \<lparr>columns = long_columns, rows = xs\<rparr> r ''water_year'' = cell_at r 0"
  "cell_of \<lparr>columns = long_columns, rows = xs\<rparr> r ''station'' = cell_at r 1"
  "cell_of \<lparr>columns = long_columns, rows = xs\<rparr> r ''county'' = cell_at r 3"
  "cell_of \<lparr>columns = long_columns, rows = xs\<rparr> r ''collection_date'' = cell_at r 7"
  "cell_of \<lparr>columns = long_columns, rows = xs\<rparr> r ''snow_depth_in'' = cell_at r 8"
  "cell_of \<lparr>columns = long_columns, rows = xs\<rparr> r ''swe_in'' = cell_at r 9"
  by (simp_all add: cell_of_def long_columns_def id_cols_def eval_nat_numeral)

lemma order_key_sort_key_of:
  assumes "long_ok x"
  shows "order_key \<lparr>columns = long_columns, rows = xs\<rparr> (without_month_num (with_month_num (reorder x))) =
         sort_key_of (with_month_num (reorder x))"
  unfolding without_with_month_num [OF assms]
  by (simp add: order_key_def cell_of_long_columns cell_of_long_month sort_key_of_def
        with_month_num_def reorder_long_ok [OF assms] cell_at_def eval_nat_numeral)

lemma all_absent_long:
  assumes "long_ok x"
  shows "\<not> all_absent \<lparr>columns = long_columns, rows = xs\<rparr> (without_month_num (with_month_num (reorder x)))"
  unfolding without_with_month_num [OF assms]
  using assms
  by (simp add: all_absent_def measurement_cols_def cell_of_long_columns reorder_long_ok [OF assms]
        cell_at_def isna_def long_ok_def eval_nat_numeral)

lemma month_frame_not_all_absent:
  assumes "month_frame df m = Inr mf"
  shows "list_all (\<lambda>r. \<not> all_absent mf r) (rows mf)"
proof -
  from month_frame_Inr [OF assms] have c: "columns mf = month_columns"
    and r: "list_all (\<lambda>r. length r = 10 \<and> \<not> (r ! 6 = NaN \<and> r ! 7 = NaN \<and> r ! 8 = NaN) \<and> r ! 9 = Str m) (rows mf)"
    by simp_all
  have "all_absent \<lparr>columns = month_columns, rows = rows mf\<rparr> x =
          (cell_at x 6 = NaN \<and> cell_at x 7 = NaN \<and> cell_at x 8 = NaN)" for x
    by (simp add: all_absent_def measurement_cols_def cell_of_month_columns isna_def)
  moreover have "mf = \<lparr>columns = month_columns, rows = rows mf\<rparr>"
    using c by simp
  ultimately have "all_absent mf x = (cell_at x 6 = NaN \<and> cell_at x 7 = NaN \<and> cell_at x 8 = NaN)" for x
    by metis
  with r show ?thesis
    by (auto simp: list_all_iff cell_at_def)
qed

lemma monthly_frames_not_all_absent:
  "monthly_frames df ms = Inr fs \<Longrightarrow>
   list_all (\<lambda>month_df. list_all (\<lambda>r. \<not> all_absent month_df r) (rows month_df)) fs"
  by (induction ms arbitrary: fs) (auto split: sum.splits dest: month_frame_not_all_absent)

text \<open>
  C7. A long table returned by \<^verbatim>\<open>pivot_to_long_format\<close> has no row in which
  \<^verbatim>\<open>collection_date\<close>, \<^verbatim>\<open>snow_depth_in\<close> and \<^verbatim>\<open>swe_in\<close> are all absent; and the loop
  has built every per-month table without such a row, before the tables are concatenated.
\<close>

theorem pivot_no_all_absent_rows:
  assumes "pivot_to_long_format df = Inr out"
  shows "list_all (\<lambda>r. \<not> all_absent out r) (rows out) \<and>
         (case monthly_frames df months of
            Inl e \<Rightarrow> False
          | Inr monthly_dfs \<Rightarrow>
              list_all (\<lambda>month_df. list_all (\<lambda>r. \<not> all_absent month_df r) (rows month_df)) monthly_dfs)"
proof -
  from pivot_to_long_format_Inr [OF assms] obtain xs where ok: "list_all long_ok xs"
    and out: "out = \<lparr>columns = long_columns,
                  rows = map without_month_num (sort_key sort_key_of (map with_month_num (map reorder xs)))\<rparr>"
    by blast
  have "\<not> all_absent out r" if "r \<in> set (rows out)" for r
  proof -
    from that out obtain x where "x \<in> set xs" "r = without_month_num (with_month_num (reorder x))"
      by auto
    with ok all_absent_long [of x] show ?thesis
      by (simp add: out list_all_iff)
  qed
  then have first: "list_all (\<lambda>r. \<not> all_absent out r) (rows out)"
    by (simp add: list_all_iff)
  from assms obtain fs where fs: "monthly_frames df months = Inr fs"
    by (auto simp: pivot_to_long_format_def split: sum.splits)
  with monthly_frames_not_all_absent [OF fs] first show ?thesis
    by simp
qed

text \<open>
  C8. The rows of a long table returned by \<^verbatim>\<open>pivot_to_long_format\<close> are in ascending
  order of county, then station, then water year, then the number of the month under
  \<^verbatim>\<open>month_order\<close> (Jan = 1, ..., Jun = 6); within a key numbers are before texts and absent
  cells last. The table has the ten columns of \<^verbatim>\<open>long_columns\<close>, and \<^verbatim>\<open>month_num\<close> is
  not among them.
\<close>

theorem pivot_sorted:
  assumes "pivot_to_long_format df = Inr out"
  shows "sorted (map (order_key out) (rows out)) \<and> columns out = long_columns \<and>
         ''month_num'' \<notin> set (columns out)"
proof -
  from pivot_to_long_format_Inr [OF assms] obtain xs where ok: "list_all long_ok xs"
    and out: "out = \<lparr>columns = long_columns,
                  rows = map without_month_num (sort_key sort_key_of (map with_month_num (map reorder xs)))\<rparr>"
    by blast
  define ys where "ys = map with_month_num (map reorder xs)"
  have rows_out: "rows out = map without_month_num (sort_key sort_key_of ys)"
    by (simp add: out ys_def)
  have key: "order_key out (without_month_num y) = sort_key_of y"
    if "y \<in> set (sort_key sort_key_of ys)" for y
  proof -
    from that obtain x where "x \<in> set xs" "y = with_month_num (reorder x)"
      by (auto simp: ys_def)
    with ok order_key_sort_key_of [of x] show ?thesis
      by (simp add: out list_all_iff)
  qed
  have "map (order_key out) (rows out) =
        map (\<lambda>y. order_key out (without_month_num y)) (sort_key sort_key_of ys)"
    unfolding rows_out by (simp add: o_def)
  also have "\<dots> = map sort_key_of (sort_key sort_key_of ys)"
    by (rule map_cong [OF refl]) (rule key)
  finally have "sorted (map (order_key out) (rows out))"
    by simp
  moreover have "columns out = long_columns"
    by (simp add: out)
  moreover have "''month_num'' \<notin> set long_columns"
    by (simp add: long_columns_def id_cols_def)
  ultimately show ?thesis by simp
qed

lemma pivot_sample: "pivot_to_long_format sample_pivot_input = Inr sample_long"
  by code_simp

text \<open>
  On the sample the rows come out as March 1935, January 1936, April 1936: April after
  January, although the text \<^verbatim>\<open>Apr\<close> is before \<^verbatim>\<open>Jan\<close> in the order of texts.
\<close>

theorem pivot_sorted_witness:
  "pivot_to_long_format sample_pivot_input = Inr sample_long \<and>
   sorted (map (order_key sample_long) (rows sample_long)) \<and>
   map (\<lambda>r. cell_of sample_long r ''month'') (rows sample_long) = [Str ''Mar'', Str ''Jan'', Str ''Apr''] \<and>
   ''Apr'' < ''Jan'' \<and>
   columns sample_long = long_columns \<and> ''month_num'' \<notin> set (columns sample_long)"
proof -
  have "map (\<lambda>r. cell_of sample_long r ''month'') (rows sample_long) = [Str ''Mar'', Str ''Jan'', Str ''Apr'']"
    by code_simp
  moreover have "''Apr'' < ''Jan''"
    by code_simp
  ultimately show ?thesis
    using pivot_sample pivot_sorted [OF pivot_sample] by (simp add: long_columns_def id_cols_def)
qed

theorem pivot_no_all_absent_rows_witness:
  "pivot_to_long_format sample_pivot_input = Inr sample_long \<and>
   list_all (\<lambda>r. \<not> all_absent sample_long r) (rows sample_long) \<and>
   length (rows sample_pivot_input) = 2 \<and> length (rows sample_long) = 3"
proof -
  have "length (rows sample_pivot_input) = 2 \<and> length (rows sample_long) = 3"
    by (simp add: sample_pivot_input_def sample_long_def)
  then show ?thesis
    using pivot_sample pivot_no_all_absent_rows [OF pivot_sample] by simp
qed

text \<open>
  The pivot returns a table for every wide table whose column names are distinct and that
  has the six identifier columns and the eighteen month columns: the theorems about its
  result speak of all such tables.
\<close>

lemma positions_absent: "c \<notin> set cs \<Longrightarrow> positions cs c k = []"
  by (induction cs arbitrary: k) auto

lemma positions_single:
  "distinct cs \<Longrightarrow> c \<in> set cs \<Longrightarrow> \<exists>i. positions cs c k = [k + i] \<and> i < length cs \<and> cs ! i = c"
proof (induction cs arbitrary: k)
  case Nil
  then show ?case by simp
next
  case (Cons x xs)
  show ?case
  proof (cases "x = c")
    case True
    with Cons.prems have "positions (x # xs) c k = [k + 0]"
      by (simp add: positions_absent)
    with True show ?thesis by fastforce
  next
    case False
    with Cons.prems Cons.IH [of "Suc k"] obtain i where
      "positions xs c (Suc k) = [Suc k + i]" "i < length xs" "xs ! i = c"
      by auto
    with False have "positions (x # xs) c k = [k + Suc i] \<and> Suc i < length (x # xs) \<and> (x # xs) ! Suc i = c"
      by simp
    then show ?thesis by blast
  qed
qed

lemma getitem_cols_distinct:
  assumes "distinct (columns df)" and "set cols \<subseteq> set (columns df)"
  shows "getitem_cols df cols =
           Inr \<lparr>columns = cols, rows = map (\<lambda>r. map (cell_of df r) cols) (rows df)\<rparr>"
proof -
  define h where "h c = hd (positions (columns df) c 0)" for c
  have one: "positions (columns df) c 0 = [h c] \<and> columns df ! h c = c" if "c \<in> set cols" for c
  proof -
    from that assms(2) have "c \<in> set (columns df)" by blast
    with positions_single [OF assms(1), of c 0] obtain i where
      "positions (columns df) c 0 = [i]" "columns df ! i = c" by auto
    then show ?thesis by (simp add: h_def)
  qed
  have nomiss: "filter (\<lambda>c. c \<notin> set (columns df)) cols = []"
    using assms(2) by (auto simp: filter_empty_conv)
  have e: "map (\<lambda>c. positions (columns df) c 0) cols = map (\<lambda>c. [h c]) cols"
    by (rule map_cong [OF refl]) (simp add: one)
  have picks: "concat (map (\<lambda>c. positions (columns df) c 0) cols) = map h cols"
    unfolding e by simp
  have "map (\<lambda>i. columns df ! i) (map h cols) = map (\<lambda>c. columns df ! h c) cols"
    by (simp add: o_def)
  also have "\<dots> = map (\<lambda>c. c) cols"
    by (rule map_cong [OF refl]) (simp add: one)
  finally have names: "map (\<lambda>i. columns df ! i) (map h cols) = cols"
    by simp
  have cells: "map (cell_at r) (map h cols) = map (cell_of df r) cols" for r
  proof -
    have "map (cell_at r) (map h cols) = map (\<lambda>c. cell_at r (h c)) cols"
      by (simp add: o_def)
    also have "\<dots> = map (cell_of df r) cols"
      by (rule map_cong [OF refl]) (simp add: one cell_of_def)
    finally show ?thesis .
  qed
  show ?thesis
    by (simp add: getitem_cols_def nomiss picks names cells Let_def del: map_map)
qed

lemma month_frame_returns:
  assumes "distinct (columns df)" and "set wide_columns \<subseteq> set (columns df)" and "m \<in> set months"
  shows "\<exists>mf. month_frame df m = Inr mf"
proof -
  let ?cols = "id_cols @ [m @ ''_date'', m @ ''_snow_depth_in'', m @ ''_swe_in'']"
  from assms(2,3) have sub: "set ?cols \<subseteq> set (columns df)"
    by (auto simp: wide_columns_def)
  have g: "getitem_cols df ?cols =
      Inr \<lparr>columns = ?cols, rows = map (\<lambda>r. map (cell_of df r) ?cols) (rows df)\<rparr>"
    by (rule getitem_cols_distinct [OF assms(1) sub])
  have tag: "setitem_scalar \<lparr>columns = id_cols @ measurement_cols, rows = rs\<rparr> ''month'' (Str m) =
     \<lparr>columns = month_columns, rows = map (\<lambda>r. r @ [Str m]) rs\<rparr>" for rs
    by (simp add: setitem_scalar_def month_columns_def id_cols_def measurement_cols_def)
  have present: "filter (\<lambda>c. c \<notin> set month_columns) measurement_cols = []"
    by (simp add: month_columns_def id_cols_def measurement_cols_def)
  show ?thesis
    unfolding month_frame_def g
    by (simp add: set_columns_def tag dropna_all_def present del: map_map)
      (simp add: id_cols_def measurement_cols_def)
qed

lemma monthly_frames_returns:
  assumes "distinct (columns df)" and "set wide_columns \<subseteq> set (columns df)" and "set ms \<subseteq> set months"
  shows "\<exists>fs. monthly_frames df ms = Inr fs"
  using assms(3)
proof (induction ms)
  case Nil
  then show ?case by simp
next
  case (Cons m ms)
  from Cons.prems month_frame_returns [OF assms(1,2), of m] obtain mf where
    "month_frame df m = Inr mf"
    by auto
  moreover from Cons obtain fs where "monthly_frames df ms = Inr fs"
    by auto
  ultimately show ?case by simp
qed

lemma sort_values_keyed:
  "sort_values \<lparr>columns = long_columns @ [''month_num''], rows = ys\<rparr> sort_keys =
     Inr \<lparr>columns = long_columns @ [''month_num''], rows = sort_key sort_key_of ys\<rparr>"
proof -
  let ?F = "\<lparr>columns = long_columns @ [''month_num''], rows = ys\<rparr>"
  have uniq: "list_all (\<lambda>c. length (positions (columns ?F) c 0) = 1) sort_keys"
    by (simp add: sort_keys_def long_columns_def id_cols_def)
  have nomiss: "filter (\<lambda>c. c \<notin> set (columns ?F)) sort_keys = []"
    by (simp add: sort_keys_def long_columns_def id_cols_def)
  show ?thesis
    unfolding sort_values_def nomiss
    using uniq by (simp add: cell_of_sorted_frame)
qed

lemma pivot_to_long_format_returns:
  assumes "distinct (columns df)"
      and "set wide_columns \<subseteq> set (columns df)"
  shows "\<exists>out. pivot_to_long_format df = Inr out"
proof -
  from monthly_frames_returns [OF assms(1,2), of months] obtain fs where
    fs: "monthly_frames df months = Inr fs"
    by auto
  define xs where "xs = concat (map rows fs)"
  define ys where "ys = map with_month_num (map reorder xs)"
  from monthly_frames_columns [OF fs] have cols: "list_all (\<lambda>f. columns f = month_columns) fs"
    and ne: "fs \<noteq> []"
    by (auto simp: months_def)
  from concat_frames_same [OF ne cols] have c: "concat_frames fs = Inr \<lparr>columns = month_columns, rows = xs\<rparr>"
    by (simp add: xs_def)
  have "pivot_to_long_format df =
          Inr \<lparr>columns = long_columns, rows = map without_month_num (sort_key sort_key_of ys)\<rparr>"
    unfolding pivot_to_long_format_def fs
    by (simp add: c getitem_long_columns Let_def setitem_month_num ys_def [symmetric]
          sort_values_keyed drop_month_num del: map_map)
  then show ?thesis by blast
qed

subsection \<open>The downloader\<close>

text \<open>
  C3. For every station identifier: when the GET raises an exception (a timeout, a
  connection error), or the response has a status that \<^verbatim>\<open>raise_for_status\<close> signals,
  \<^verbatim>\<open>download_site_data\<close> prints the error and returns \<^verbatim>\<open>None\<close>; on a response with a
  status from 200 to 299 it returns the text of the response; in no case does an exception
  leave the function.
\<close>

theorem download_site_data_outcomes:
  "(get (report_url site_num) = Raises e \<longrightarrow>
      download_site_data get site_num w =
        (Inr None, say (ErrorDownloading site_num e)
                     (w\<lparr>requested := requested w @ [report_url site_num]\<rparr>)))
   \<and> (get (report_url site_num) = Response status body \<and> 400 \<le> status \<and> status < 600 \<longrightarrow>
        download_site_data get site_num w =
          (Inr None, say (ErrorDownloading site_num (HTTPError status (report_url site_num)))
                       (w\<lparr>requested := requested w @ [report_url site_num]\<rparr>)))
   \<and> (get (report_url site_num) = Response status body \<and> 200 \<le> status \<and> status < 300 \<longrightarrow>
        download_site_data get site_num w =
          (Inr (Some body), w\<lparr>requested := requested w @ [report_url site_num]\<rparr>))
   \<and> (\<exists>res. fst (download_site_data get site_num w) = Inr res)"
  by (auto simp: download_site_data_def fetch_text_def raise_for_status_def Let_def
           split: http_outcome.splits sum.splits)

lemma sample_http_answers:
  "sample_http (report_url ''05J03'') = Response 200 sample_report"
  "sample_http (report_url ''05K09'') = Raises (Timeout ''read timed out'')"
  "sample_http (report_url ''06J15'') = Response 404 ''Not Found''"
  by (simp_all add: sample_http_def report_url_def)

theorem download_site_data_outcomes_witness:
  "download_site_data sample_http ''05K09'' world0 =
     (Inr None, say (ErrorDownloading ''05K09'' (Timeout ''read timed out''))
                  (world0\<lparr>requested := requested world0 @ [report_url ''05K09'']\<rparr>))
   \<and> download_site_data sample_http ''06J15'' world0 =
     (Inr None, say (ErrorDownloading ''06J15'' (HTTPError 404 (report_url ''06J15'')))
                  (world0\<lparr>requested := requested world0 @ [report_url ''06J15'']\<rparr>))
   \<and> download_site_data sample_http ''05J03'' world0 =
     (Inr (Some sample_report), world0\<lparr>requested := requested world0 @ [report_url ''05J03'']\<rparr>)"
  using download_site_data_outcomes [of sample_http "''05K09''" "Timeout ''read timed out''" world0 0 "[]"]
        download_site_data_outcomes [of sample_http "''06J15''" "Timeout []" world0 404 "''Not Found''"]
        download_site_data_outcomes [of sample_http "''05J03''" "Timeout []" world0 200 sample_report]
  by (simp add: sample_http_answers)

subsection \<open>The aggregator\<close>

lemma files_say [simp]: "files (say m w) = files w"
  by (simp add: say_def)

lemma download_site_data_files: "files (snd (download_site_data get site_num w)) = files w"
  by (simp add: download_site_data_def Let_def split: sum.splits)

lemma process_site_files:
  "files (snd (process_site get read_csv sites_df delay idx r all_data w)) = files w"
  by (simp add: process_site_def Let_def check_arity_def split: sum.splits)

lemma sites_loop_files:
  "files (snd (sites_loop get read_csv sites_df delay idx rs all_data w)) = files w"
proof (induction rs arbitrary: idx all_data w)
  case Nil
  then show ?case by simp
next
  case (Cons r rs)
  show ?case
  proof (cases "process_site get read_csv sites_df delay idx r all_data w")
    case (Pair res w1)
    with process_site_files [of get read_csv sites_df delay idx r all_data w]
    have f: "files w1 = files w" by simp
    show ?thesis
    proof (cases res)
      case (Inl e)
      with Pair f show ?thesis by simp
    next
      case (Inr all_data1)
      with Pair f Cons.IH [of "Suc idx" all_data1 w1] show ?thesis by simp
    qed
  qed
qed

lemma collect_all_data_files:
  "files (snd (collect_all_data directory get read_csv delay w)) = files w"
  by (simp add: collect_all_data_def Let_def sites_loop_files split: sum.splits)

text \<open>
  When the loop over the stations ends with an empty \<^verbatim>\<open>all_data\<close>, the run prints that
  no data was downloaded, returns \<^verbatim>\<open>None\<close> and leaves the files as they were. The loop
  ends so for the empty directory, and for no other (\<open>loop_completes_only_empty\<close> below).
\<close>

lemma no_data_no_file:
  assumes "collect_all_data directory get read_csv delay w = (Inr [], w2)"
  shows "download_all_colorado_sites directory get read_csv save_path delay w =
           (Inr None, say NoDataDownloaded w2)
         \<and> files (say NoDataDownloaded w2) = files w"
proof -
  from collect_all_data_files [of directory get read_csv delay w] assms
  have "files w2 = files w" by simp
  with assms show ?thesis
    by (simp add: download_all_colorado_sites_def save_all_def)
qed

lemma empty_directory_run:
  "download_all_colorado_sites (Inr []) get read_csv save_path delay w =
     (Inr None, say NoDataDownloaded (say (Found 0) (say FetchingList w)))"
  by (simp add: download_all_colorado_sites_def collect_all_data_def get_colorado_sites_def
        save_all_def)

text \<open>
  With any station in the directory the run ends at the first row: \<^verbatim>\<open>row['site_num']\<close> is
  a KeyError, since the table of \<^verbatim>\<open>get_colorado_sites\<close> names that column \<^verbatim>\<open>station\<close>. No
  report is requested and no file written.
\<close>

lemma nonempty_directory_raises:
  "download_all_colorado_sites (Inr (s # sites)) get read_csv save_path delay w =
     (Inl (KeyError [''site_num'']), say (Found (Suc (length sites))) (say FetchingList w))"
  by (simp add: download_all_colorado_sites_def collect_all_data_def get_colorado_sites_def
        process_site_def row_getitem_def Let_def split: prod.splits)

lemma loop_completes_only_empty:
  assumes "collect_all_data directory get read_csv delay w = (Inr all_data, w2)"
  shows "directory = Inr [] \<and> all_data = []"
proof (cases directory)
  case (Inl e)
  with assms show ?thesis
    by (simp add: collect_all_data_def)
next
  case (Inr sites)
  show ?thesis
  proof (cases sites)
    case Nil
    with Inr assms show ?thesis
      by (simp add: collect_all_data_def get_colorado_sites_def)
  next
    case (Cons s rest)
    with Inr assms show ?thesis
      by (simp add: collect_all_data_def get_colorado_sites_def process_site_def row_getitem_def
            Let_def split: prod.splits)
  qed
qed

text \<open>
  C9, on the code: with a directory of three stations and a service on which every
  download fails, so that no station yields data, the run does not print that no data was
  downloaded and return \<^verbatim>\<open>None\<close>: it raises KeyError at the first station. No file is
  written.
\<close>

theorem no_station_data_run_raises:
  "list_all (\<lambda>station. fst (download_site_data failing_http station world0) = Inr None)
     (map fst three_sites)
   \<and> download_all_colorado_sites (Inr three_sites) failing_http read_csv_plain ''colorado_snow_data.csv'' 1 world0 =
       (Inl (KeyError [''site_num'']),
        \<lparr>console = [FetchingList, Found 3], requested = [], slept = [], files = []\<rparr>)"
  by (simp add: three_sites_def nonempty_directory_raises say_def world0_def
        download_site_data_def fetch_text_def failing_http_def)

text \<open>
  C2, on the code: with a directory of three stations, one of whose downloads would fail,
  the run raises KeyError at the first station; no table is written.
\<close>

theorem three_sites_run_raises:
  "download_all_colorado_sites (Inr three_sites) sample_http read_csv_plain ''colorado_snow_data.csv'' 1 world0 =
     (Inl (KeyError [''site_num'']),
      \<lparr>console = [FetchingList, Found 3], requested = [], slept = [], files = []\<rparr>)"
  by (simp add: three_sites_def nonempty_directory_raises say_def world0_def)

text \<open>
  C1, on the code: with a directory of one station whose report is well-formed, the run
  raises KeyError before the downloader is called and writes no table; and the pivot,
  which the aggregator does not call, raises KeyError on the table the parser returns for
  that report, which has no column for the site name, county, latitude and longitude.
\<close>

theorem one_site_run_raises:
  "download_all_colorado_sites (Inr one_site) sample_http read_csv_plain ''colorado_snow_data.csv'' 1 world0 =
     (Inl (KeyError [''site_num'']),
      \<lparr>console = [FetchingList, Found 1], requested = [], slept = [], files = []\<rparr>)
   \<and> pivot_to_long_format sample_wide = Inl (KeyError [''site_name'', ''county'', ''latitude'', ''longitude''])"
proof -
  have "pivot_to_long_format sample_wide = Inl (KeyError [''site_name'', ''county'', ''latitude'', ''longitude''])"
    by code_simp
  then show ?thesis
    by (simp add: one_site_def nonempty_directory_raises say_def world0_def)
qed

end
